theory Spec2Isabelle
  imports Complex_Main
begin

section \<open>Python errors\<close>

text \<open>
  Every exception the modelled code can raise is a value; a function that may raise
  returns \<open>py_error + 'a\<close>, with \<open>Inl\<close> for the exception.
  \<open>SystemExit\<close> carries the message given to \<^verbatim>\<open>sys.exit\<close>, \<open>UnboundLocalError\<close> the
  name of the variable; \<open>LibraryError\<close> stands for an exception of a library's own (a
  parser error of pandas, say).
\<close>

datatype py_error =
    UnboundLocalError string
  | FileNotFoundError
  | FileExistsError
  | ZeroDivisionError
  | AttributeError
  | IndexError
  | ValueError
  | NotADirectoryError
  | SystemExit string
  | LibraryError string

section \<open>CCPM/io/utils.py: load_df_in_any_format\<close>

subsection \<open>os.path.splitext (posixpath)\<close>

text \<open>
  \<^verbatim>\<open>str.rfind\<close> of a single character: the highest index holding it, or \<open>-1\<close>.
\<close>

fun rfind :: "string \<Rightarrow> char \<Rightarrow> int" where
  "rfind [] ch = -1"
| "rfind (x # xs) ch =
     (let r = rfind xs ch
      in if r \<noteq> -1 then r + 1 else if x = ch then 0 else -1)"

text \<open>
  \<^verbatim>\<open>genericpath._splitext(p, '/', None, '.')\<close>: the extension starts at the last dot,
  provided that dot comes after the last separator and some character between the
  separator and the dot is not itself a dot (leading dots of the file name are skipped).
\<close>

definition splitext :: "string \<Rightarrow> string \<times> string" where
  "splitext p =
     (let sepIndex = rfind p (CHR ''/'');
          dotIndex = rfind p (CHR ''.'')
      in if dotIndex > sepIndex \<and>
            list_ex (\<lambda>ch. ch \<noteq> CHR ''.'')
              (take (nat (dotIndex - (sepIndex + 1))) (drop (nat (sepIndex + 1)) p))
         then (take (nat dotIndex) p, drop (nat dotIndex) p)
         else (p, []))"

subsection \<open>The libraries the loader calls\<close>

text \<open>
  \<^verbatim>\<open>pd.read_csv\<close>, \<^verbatim>\<open>pd.read_excel\<close>, \<^verbatim>\<open>open(file).read()\<close> and
  \<^verbatim>\<open>detect_delimiter.detect\<close> are external: they are fields of an environment, each
  returning its result or the exception it raises. The \<^verbatim>\<open>sep\<close> argument of
  \<^verbatim>\<open>read_csv\<close> is either left at its default or given (possibly \<^verbatim>\<open>None\<close>, which is
  what \<^verbatim>\<open>detect\<close> returns when no whitelisted character occurs).
\<close>

datatype sep_arg = SepDefault | SepGiven "string option"

record 'df io_env =
  read_csv :: "string \<Rightarrow> sep_arg \<Rightarrow> py_error + 'df"
  read_excel :: "string \<Rightarrow> py_error + 'df"
  open_read :: "string \<Rightarrow> py_error + string"
  detect :: "string \<Rightarrow> string list \<Rightarrow> string option"

definition whitelist :: "string list" where
  "whitelist = [[CHR 0x09], '':'', '';'', '' '', '','']"

text \<open>
  The local variable \<^verbatim>\<open>df\<close> is unbound until one of the three branches assigns it;
  the three \<^verbatim>\<open>if\<close> statements run in sequence, and an exception of a reader leaves
  the function at once.
\<close>

definition load_df_in_any_format :: "'df io_env \<Rightarrow> string \<Rightarrow> py_error + 'df" where
  "load_df_in_any_format env file =
     (let ext = snd (splitext file);
          df1 = (if ext = ''.csv'' then map_sum id Some (read_csv env file SepDefault)
                 else Inr None)
      in case df1 of Inl e \<Rightarrow> Inl e
         | Inr d1 \<Rightarrow>
        (let df2 = (if ext = ''.xlsx'' then map_sum id Some (read_excel env file)
                    else Inr d1)
         in case df2 of Inl e \<Rightarrow> Inl e
            | Inr d2 \<Rightarrow>
           (let df3 = (if ext = ''.txt''
                       then (case open_read env file of Inl e \<Rightarrow> Inl e
                             | Inr f \<Rightarrow>
                                 map_sum id Some
                                   (read_csv env file (SepGiven (detect env f whitelist))))
                       else Inr d2)
            in case df3 of Inl e \<Rightarrow> Inl e
               | Inr None \<Rightarrow> Inl (UnboundLocalError ''df'')
               | Inr (Some df) \<Rightarrow> Inr df)))"

text \<open>
  An environment for concrete runs: its readers return the path and separator they were
  called with, every file reads as \<open>a;b\<close>, and \<^verbatim>\<open>detect\<close> finds the semicolon
  when the whitelist allows it.
\<close>

definition echo_env :: "(string \<times> sep_arg) io_env" where
  "echo_env =
     \<lparr> read_csv = (\<lambda>p s. Inr (p, s)),
       read_excel = (\<lambda>p. Inr (p, SepDefault)),
       open_read = (\<lambda>p. Inr ''a;b''),
       detect = (\<lambda>t w. if '';'' \<in> set w then Some '';'' else None) \<rparr>"

section \<open>CCPM/io/utils.py: assert_output_dir_exist\<close>

subsection \<open>The file system\<close>


























section \<open>CCPM/io/viz.py: flexible_barplot\<close>

text \<open>
  \<^verbatim>\<open>determine_layout\<close>. \<^verbatim>\<open>np.sqrt\<close> and the true division are taken exactly (over
  the reals); \<^verbatim>\<open>int\<close> of a non-negative float is its floor. \<^verbatim>\<open>np.sqrt\<close> of a negative
  number is NaN, which \<^verbatim>\<open>int\<close> refuses with a ValueError, and the division by
  \<^verbatim>\<open>num_rows = 0\<close> raises ZeroDivisionError.
\<close>

definition determine_layout :: "int \<Rightarrow> py_error + (int \<times> int)" where
  "determine_layout nb_axes =
     (if nb_axes < 0 then Inl ValueError
      else
        (let num_rows = \<lfloor>sqrt (real_of_int nb_axes)\<rfloor>
         in if num_rows = 0 then Inl ZeroDivisionError
            else
              (let num_cols = \<lceil>real_of_int nb_axes / real_of_int num_rows\<rceil>
               in Inr (num_rows, num_cols))))"

text \<open>
  \<^verbatim>\<open>plt.subplots(nrows, ncols)\<close> with its default \<^verbatim>\<open>squeeze=True\<close> returns a single
  Axes object for a 1 x 1 grid and an array of \<open>nrows * ncols\<close> Axes otherwise. Only the
  array has the attribute \<^verbatim>\<open>flat\<close>, which enumerates its axes in row-major order.
\<close>

datatype axes_obj = SingleAxes | AxesArray nat

definition subplots :: "int \<Rightarrow> int \<Rightarrow> axes_obj" where
  "subplots nrows ncols =
     (if nrows = 1 \<and> ncols = 1 then SingleAxes else AxesArray (nat (nrows * ncols)))"

fun flat :: "axes_obj \<Rightarrow> py_error + nat list" where
  "flat SingleAxes = Inl AttributeError"
| "flat (AxesArray k) = Inr [0..<k]"

text \<open>
  What the loop of \<^verbatim>\<open>flexible_barplot\<close> does with the axis at position \<open>i\<close> of
  \<^verbatim>\<open>axes.flat\<close>: it draws the bars of \<^verbatim>\<open>values[i]\<close> when \<open>i < num_axes\<close> (an
  IndexError when \<^verbatim>\<open>values\<close> is too short) and turns the axis off otherwise. The
  drawing calls themselves are taken to succeed.
\<close>

datatype axis_use = BarPlot nat "real list" | AxisOff

fun plot_axes :: "real list list \<Rightarrow> int \<Rightarrow> nat list \<Rightarrow> py_error + axis_use list" where
  "plot_axes vals num_axes [] = Inr []"
| "plot_axes vals num_axes (i # axs) =
     (if int i < num_axes
      then (if i < length vals
            then (case plot_axes vals num_axes axs of
                    Inl e \<Rightarrow> Inl e
                  | Inr us \<Rightarrow> Inr (BarPlot i (vals ! i) # us))
            else Inl IndexError)
      else (case plot_axes vals num_axes axs of
              Inl e \<Rightarrow> Inl e
            | Inr us \<Rightarrow> Inr (AxisOff # us)))"

definition flexible_barplot :: "real list list \<Rightarrow> int \<Rightarrow> py_error + axis_use list" where
  "flexible_barplot vals num_axes =
     (case determine_layout num_axes of
        Inl e \<Rightarrow> Inl e
      | Inr (num_rows, num_cols) \<Rightarrow>
          (case flat (subplots num_rows num_cols) of
             Inl e \<Rightarrow> Inl e
           | Inr axs \<Rightarrow> plot_axes vals num_axes axs))"

section \<open>CCPM/clustering/cluster.py\<close>

subsection \<open>Arrays\<close>

text \<open>
  A two-dimensional float64 array is the list of its rows. The arithmetic of float64 is
  taken exactly, over the reals: rounding, overflow, infinities and NaN are outside the
  model, and a division by zero, which numpy answers with a warning and an infinity or
  NaN, has HOL's value \<open>x / 0 = 0\<close>. The functions below follow numpy on arrays whose
  shapes fit (the shapes the docstrings give); numpy's broadcasting of other shapes and
  its shape errors are not modelled, and every theorem states the shapes it is about.
\<close>

type_synonym matrix = "real list list"

definition ncols :: "matrix \<Rightarrow> nat" where
  "ncols M = (case M of [] \<Rightarrow> 0 | row # _ \<Rightarrow> length row)"

definition has_shape :: "nat \<Rightarrow> nat \<Rightarrow> matrix \<Rightarrow> bool" where
  "has_shape r k M = (length M = r \<and> list_all (\<lambda>row. length row = k) M)"


text \<open>\<^verbatim>\<open>M.sum(axis=0)\<close>, \<^verbatim>\<open>M.sum(axis=1)\<close> and \<^verbatim>\<open>M.sum()\<close>.\<close>

definition col_sums :: "matrix \<Rightarrow> real list" where
  "col_sums M = map (\<lambda>j. \<Sum>row\<leftarrow>M. row ! j) [0..<ncols M]"

definition row_sums :: "matrix \<Rightarrow> real list" where
  "row_sums M = map sum_list M"

definition mat_sum :: "matrix \<Rightarrow> real" where
  "mat_sum M = sum_list (map sum_list M)"

text \<open>\<^verbatim>\<open>np.atleast_2d\<close> of a vector, \<^verbatim>\<open>np.ones((r, k))\<close>, \<^verbatim>\<open>M.T\<close> and \<^verbatim>\<open>A.dot(B)\<close>.\<close>

definition atleast_2d :: "real list \<Rightarrow> matrix" where
  "atleast_2d v = [v]"

definition ones :: "nat \<Rightarrow> nat \<Rightarrow> matrix" where
  "ones r k = replicate r (replicate k 1)"

definition mat_T :: "matrix \<Rightarrow> matrix" where
  "mat_T M = map (\<lambda>j. map (\<lambda>row. row ! j) M) [0..<ncols M]"

definition dot :: "matrix \<Rightarrow> matrix \<Rightarrow> matrix" where
  "dot A B =
     map (\<lambda>row. map (\<lambda>j. \<Sum>k\<leftarrow>[0..<length row]. row ! k * (B ! k) ! j) [0..<ncols B]) A"

text \<open>Elementwise operations on arrays of the same shape.\<close>

definition mat_div :: "matrix \<Rightarrow> matrix \<Rightarrow> matrix" where
  "mat_div A B = map2 (map2 (/)) A B"

definition mat_mul :: "matrix \<Rightarrow> matrix \<Rightarrow> matrix" where
  "mat_mul A B = map2 (map2 (*)) A B"

definition mat_sub :: "matrix \<Rightarrow> matrix \<Rightarrow> matrix" where
  "mat_sub A B = map2 (map2 (-)) A B"

text \<open>
  \<^verbatim>\<open>np.fmax(M, e)\<close>, \<^verbatim>\<open>M ** e\<close> for a float exponent (the bases are positive where the
  code uses it) and \<^verbatim>\<open>M ** 2\<close>.
\<close>

definition fmax :: "matrix \<Rightarrow> real \<Rightarrow> matrix" where
  "fmax M e = map (map (\<lambda>x. max x e)) M"

definition mat_pow :: "matrix \<Rightarrow> real \<Rightarrow> matrix" where
  "mat_pow M e = map (map (\<lambda>x. x powr e)) M"

definition mat_sq :: "matrix \<Rightarrow> matrix" where
  "mat_sq M = map (map (\<lambda>x. x ^ 2)) M"

text \<open>\<^verbatim>\<open>np.linalg.norm\<close> of a matrix (the Frobenius norm) and \<^verbatim>\<open>np.trace\<close>.\<close>

definition linalg_norm :: "matrix \<Rightarrow> real" where
  "linalg_norm M = sqrt (mat_sum (mat_sq M))"

definition trace :: "matrix \<Rightarrow> real" where
  "trace M = (\<Sum>i\<leftarrow>[0..<min (length M) (ncols M)]. (M ! i) ! i)"

text \<open>\<^verbatim>\<open>np.finfo(np.float64).eps\<close>.\<close>

definition eps :: real where
  "eps = 1 / 2 ^ 52"

subsection \<open>The distance function\<close>

text \<open>
  \<^verbatim>\<open>compute_distance(data, cntr, metric)\<close> belongs to \<^verbatim>\<open>CCPM/clustering/distance.py\<close>,
  which is not among the sources: it is a parameter of every function that calls it. It
  receives the transposed data (one row per sample), the centers (one row per cluster)
  and the metric string.
\<close>

type_synonym distance_fn = "matrix \<Rightarrow> matrix \<Rightarrow> string \<Rightarrow> matrix"

subsection \<open>cmeans0 and cmeans_predict0\<close>

text \<open>
  \<^verbatim>\<open>u_old /= ...\<close> divides the caller's array in place; the \<^verbatim>\<open>np.fmax\<close> after it
  makes a new array. So the step also returns the array the caller's \<^verbatim>\<open>u_old\<close> holds
  when the step is over, as the first component. The quotient \<^verbatim>\<open>- 2. / (m - 1)\<close> of
  Python floats raises ZeroDivisionError for \<^verbatim>\<open>m = 1\<close>.
\<close>

definition cmeans0 ::
  "distance_fn \<Rightarrow> matrix \<Rightarrow> matrix \<Rightarrow> nat \<Rightarrow> real \<Rightarrow> string \<Rightarrow>
   py_error + (matrix \<times> matrix \<times> matrix \<times> real \<times> matrix)" where
  "cmeans0 compute_distance data u_old c m metric =
     (let u_old1 = mat_div u_old (dot (ones c 1) (atleast_2d (col_sums u_old)));
          u_old2 = fmax u_old1 eps;
          um = mat_pow u_old2 m;
          dataT = mat_T data;
          cntr = mat_div (dot um dataT)
                   (mat_T (dot (ones (ncols dataT) 1) (atleast_2d (row_sums um))));
          d0 = compute_distance dataT cntr metric;
          d = fmax d0 eps;
          jm = mat_sum (mat_mul um (mat_sq d))
      in if m - 1 = 0 then Inl ZeroDivisionError
         else
           (let u0 = mat_pow d (- 2 / (m - 1));
                u = mat_div u0 (dot (ones c 1) (atleast_2d (col_sums u0)))
            in Inr (u_old1, cntr, u, jm, d)))"

definition cmeans_predict0 ::
  "distance_fn \<Rightarrow> matrix \<Rightarrow> matrix \<Rightarrow> matrix \<Rightarrow> nat \<Rightarrow> real \<Rightarrow> string \<Rightarrow>
   py_error + (matrix \<times> matrix \<times> real \<times> matrix)" where
  "cmeans_predict0 compute_distance test_data cntr u_old c m metric =
     (let u_old1 = mat_div u_old (dot (ones c 1) (atleast_2d (col_sums u_old)));
          u_old2 = fmax u_old1 eps;
          um = mat_pow u_old2 m;
          test_dataT = mat_T test_data;
          d0 = compute_distance test_dataT cntr metric;
          d = fmax d0 eps;
          jm = mat_sum (mat_mul um (mat_sq d))
      in if m - 1 = 0 then Inl ZeroDivisionError
         else
           (let u0 = mat_pow d (- 2 / (m - 1));
                u = mat_div u0 (dot (ones c 1) (atleast_2d (col_sums u0)))
            in Inr (u_old1, u, jm, d)))"

definition fp_coeff :: "matrix \<Rightarrow> real" where
  "fp_coeff u = (let n = ncols u in trace (dot u (mat_T u)) / real n)"

subsection \<open>The update formulas of fuzzy c-means\<close>




subsection \<open>The main loop of cmeans and cmeans_predict\<close>

text \<open>
  The two functions run the same loop, up to the step they call and the variables the
  step assigns. The local variables are the fields of the loop state: \<^verbatim>\<open>u\<close>,
  \<^verbatim>\<open>jm\<close> and \<^verbatim>\<open>p\<close> are bound before the loop, \<^verbatim>\<open>u2\<close> and the step's other outputs
  (\<^verbatim>\<open>cntr\<close> and \<^verbatim>\<open>d\<close>, or \<^verbatim>\<open>d\<close> alone) only by the first iteration.
\<close>

record 'x loop_state =
  st_u :: matrix
  st_u2 :: "matrix option"
  st_outs :: "'x option"
  st_jm :: "real list"
  st_p :: int

type_synonym 'x step_fn = "matrix \<Rightarrow> py_error + (matrix \<times> matrix \<times> real \<times> 'x)"

text \<open>The variables as they are when the loop is entered.\<close>

definition init_state :: "matrix \<Rightarrow> 'x loop_state" where
  "init_state u = \<lparr> st_u = u, st_u2 = None, st_outs = None, st_jm = [], st_p = 0 \<rparr>"

text \<open>
  One run of the loop body up to the stopping rule: \<^verbatim>\<open>u2 = u.copy()\<close>, the step (which
  divides \<^verbatim>\<open>u2\<close> in place), \<^verbatim>\<open>jm = np.hstack((jm, Jjm))\<close>, \<^verbatim>\<open>p += 1\<close>.
\<close>

definition loop_body :: "'x step_fn \<Rightarrow> 'x loop_state \<Rightarrow> py_error + 'x loop_state" where
  "loop_body step st =
     (case step (st_u st) of
        Inl e \<Rightarrow> Inl e
      | Inr (u2, u, Jjm, x) \<Rightarrow>
          Inr \<lparr> st_u = u, st_u2 = Some u2, st_outs = Some x,
                st_jm = st_jm st @ [Jjm], st_p = st_p st + 1 \<rparr>)"

lemma loop_body_p: "loop_body step st = Inr st' \<Longrightarrow> st_p st' = st_p st + 1"
  by (auto simp: loop_body_def split: sum.splits prod.splits)

text \<open>The stopping rule \<^verbatim>\<open>np.linalg.norm(u - u2) < error\<close>, read after an iteration.\<close>

definition stopping_rule :: "real \<Rightarrow> 'x loop_state \<Rightarrow> bool" where
  "stopping_rule error st =
     (case st_u2 st of
        None \<Rightarrow> False
      | Some u2 \<Rightarrow> linalg_norm (mat_sub (st_u st) u2) < error)"

function main_loop ::
  "'x step_fn \<Rightarrow> real \<Rightarrow> int \<Rightarrow> 'x loop_state \<Rightarrow> py_error + 'x loop_state" where
  "main_loop step error maxiter st =
     (if st_p st < maxiter - 1
      then (case loop_body step st of
              Inl e \<Rightarrow> Inl e
            | Inr st' \<Rightarrow>
                if stopping_rule error st' then Inr st'
                else main_loop step error maxiter st')
      else Inr st)"
  by pat_completeness auto
termination main_loop
  by (relation "measure (\<lambda>(step, error, maxiter, st). nat (maxiter - 1 - st_p st))")
    (auto simp: loop_body_p)

declare main_loop.simps [simp del]

text \<open>
  The state after \<open>k\<close> runs of the loop body with the stopping rule left out: the
  sequence of iterates the stopping rule is read on.
\<close>

primrec iterate :: "'x step_fn \<Rightarrow> 'x loop_state \<Rightarrow> nat \<Rightarrow> py_error + 'x loop_state" where
  "iterate step st 0 = Inr st"
| "iterate step st (Suc k) =
     (case iterate step st k of Inl e \<Rightarrow> Inl e | Inr st' \<Rightarrow> loop_body step st')"

text \<open>The stopping rule holds after the \<open>k\<close>-th run of the body.\<close>

definition stops_at :: "'x step_fn \<Rightarrow> real \<Rightarrow> 'x loop_state \<Rightarrow> nat \<Rightarrow> bool" where
  "stops_at step error st k =
     (case iterate step st k of Inl e \<Rightarrow> False | Inr s \<Rightarrow> stopping_rule error s)"

text \<open>
  What the loop leaves behind when it is entered: it has run \<open>p\<close> times, between once
  and \<open>maxiter - 1\<close> times, \<open>u\<close> and \<open>jm\<close> are those of the \<open>p\<close>-th iterate, \<open>jm\<close> has
  one entry per run, the stopping rule held after none of the earlier runs, and it holds
  after the last one unless the loop ended on its bound.
\<close>

definition loop_result ::
  "'x step_fn \<Rightarrow> real \<Rightarrow> int \<Rightarrow> matrix \<Rightarrow> matrix \<Rightarrow> real list \<Rightarrow> int \<Rightarrow> bool" where
  "loop_result step error maxiter u_start u jm p =
     (1 \<le> p \<and> p \<le> maxiter - 1 \<and> int (length jm) = p \<and>
      (\<exists>st. iterate step (init_state u_start) (nat p) = Inr st \<and> st_u st = u \<and> st_jm st = jm) \<and>
      (\<forall>k. 0 < k \<and> int k < p \<longrightarrow> \<not> stops_at step error (init_state u_start) k) \<and>
      (p < maxiter - 1 \<longrightarrow> stops_at step error (init_state u_start) (nat p)))"

subsection \<open>cmeans\<close>

text \<open>
  The parameter \<^verbatim>\<open>metric='euclidean'\<close> of \<^verbatim>\<open>cmeans\<close> and \<^verbatim>\<open>cmeans_predict\<close>: a call
  gives the metric or leaves it out, and the parameter is bound to the default then.
\<close>

definition keyword_metric :: "string option \<Rightarrow> string" where
  "keyword_metric arg = (case arg of None \<Rightarrow> ''euclidean'' | Some metric \<Rightarrow> metric)"

text \<open>
  \<^verbatim>\<open>np.random.rand(c, n)\<close>, after \<^verbatim>\<open>np.random.seed(seed)\<close> when a seed is given, is
  the parameter \<open>rand\<close>: the array drawn for this seed and shape.
\<close>

type_synonym rand_fn = "int option \<Rightarrow> nat \<Rightarrow> nat \<Rightarrow> matrix"

definition setup_u0 :: "rand_fn \<Rightarrow> nat \<Rightarrow> nat \<Rightarrow> matrix option \<Rightarrow> int option \<Rightarrow> matrix" where
  "setup_u0 rand c n init seed =
     (case init of
        None \<Rightarrow>
          (let u0 = rand seed c n
           in mat_div u0 (dot (ones c 1) (atleast_2d (col_sums u0))))
      | Some i \<Rightarrow> i)"

record cmeans_result =
  r_cntr :: matrix
  r_u :: matrix
  r_u0 :: matrix
  r_d :: matrix
  r_jm :: "real list"
  r_p :: int
  r_fpc :: real

definition cmeans_step :: "distance_fn \<Rightarrow> matrix \<Rightarrow> nat \<Rightarrow> real \<Rightarrow> string \<Rightarrow>
    (matrix \<times> matrix) step_fn" where
  "cmeans_step compute_distance data c m metric u2 =
     (case cmeans0 compute_distance data u2 c m metric of
        Inl e \<Rightarrow> Inl e
      | Inr (u2', cntr, u, Jjm, d) \<Rightarrow> Inr (u2', u, Jjm, (cntr, d)))"

definition cmeans ::
  "distance_fn \<Rightarrow> rand_fn \<Rightarrow> matrix \<Rightarrow> nat \<Rightarrow> real \<Rightarrow> real \<Rightarrow> int \<Rightarrow> string option \<Rightarrow>
   matrix option \<Rightarrow> int option \<Rightarrow> py_error + cmeans_result" where
  "cmeans compute_distance rand data c m error maxiter metric_arg init seed =
     (let metric = keyword_metric metric_arg;
          u0 = setup_u0 rand c (ncols data) init seed;
          u = fmax u0 eps
      in case main_loop (cmeans_step compute_distance data c m metric) error maxiter
              (init_state u) of
           Inl e \<Rightarrow> Inl e
         | Inr st \<Rightarrow>
             (case st_u2 st of
                None \<Rightarrow> Inl (UnboundLocalError ''u2'')
              | Some u2 \<Rightarrow>
                  (let error' = linalg_norm (mat_sub (st_u st) u2);
                       fpc = fp_coeff (st_u st)
                   in case st_outs st of
                        None \<Rightarrow> Inl (UnboundLocalError ''cntr'')
                      | Some (cntr, d) \<Rightarrow>
                          Inr \<lparr> r_cntr = cntr, r_u = st_u st, r_u0 = u0, r_d = d,
                                r_jm = st_jm st, r_p = st_p st, r_fpc = fpc \<rparr>)))"

subsection \<open>cmeans_predict\<close>

record predict_result =
  q_u :: matrix
  q_u0 :: matrix
  q_d :: matrix
  q_jm :: "real list"
  q_p :: int
  q_fpc :: real

definition predict_step :: "distance_fn \<Rightarrow> matrix \<Rightarrow> matrix \<Rightarrow> nat \<Rightarrow> real \<Rightarrow> string \<Rightarrow>
    matrix step_fn" where
  "predict_step compute_distance test_data cntr_trained c m metric u2 =
     (case cmeans_predict0 compute_distance test_data cntr_trained u2 c m metric of
        Inl e \<Rightarrow> Inl e
      | Inr (u2', u, Jjm, d) \<Rightarrow> Inr (u2', u, Jjm, d))"

definition cmeans_predict ::
  "distance_fn \<Rightarrow> rand_fn \<Rightarrow> matrix \<Rightarrow> matrix \<Rightarrow> real \<Rightarrow> real \<Rightarrow> int \<Rightarrow> string option \<Rightarrow>
   matrix option \<Rightarrow> int option \<Rightarrow> py_error + predict_result" where
  "cmeans_predict compute_distance rand test_data cntr_trained m error maxiter metric_arg init seed =
     (let metric = keyword_metric metric_arg;
          c = length cntr_trained;
          u0 = setup_u0 rand c (ncols test_data) init seed;
          u = fmax u0 eps
      in case main_loop (predict_step compute_distance test_data cntr_trained c m metric)
              error maxiter
              (init_state u) of
           Inl e \<Rightarrow> Inl e
         | Inr st \<Rightarrow>
             (case st_u2 st of
                None \<Rightarrow> Inl (UnboundLocalError ''u2'')
              | Some u2 \<Rightarrow>
                  (let error' = linalg_norm (mat_sub (st_u st) u2);
                       fpc = fp_coeff (st_u st)
                   in case st_outs st of
                        None \<Rightarrow> Inl (UnboundLocalError ''d'')
                      | Some d \<Rightarrow>
                          Inr \<lparr> q_u = st_u st, q_u0 = u0, q_d = d,
                                q_jm = st_jm st, q_p = st_p st, q_fpc = fpc \<rparr>)))"

subsection \<open>cmeans_predict with its arrays in a store\<close>

text \<open>
  The prediction once more, with the arrays the caller passes held in a store (the list of
  all arrays, an address being an index), to account for the one statement that writes
  into an existing array: \<^verbatim>\<open>u_old /= ...\<close> in \<^verbatim>\<open>cmeans_predict0\<close>. The arguments
  \<^verbatim>\<open>test_data\<close>, \<^verbatim>\<open>cntr_trained\<close> and \<^verbatim>\<open>init\<close> are addresses; \<^verbatim>\<open>u.copy()\<close>
  allocates a new array at the end of the store; every other operation builds a new
  array that nothing writes to, which stays a value. \<^verbatim>\<open>compute_distance\<close> only reads
  its arguments.
\<close>

type_synonym addr = nat
type_synonym store = "matrix list"

definition cmeans_predict0_st ::
  "distance_fn \<Rightarrow> store \<Rightarrow> addr \<Rightarrow> addr \<Rightarrow> addr \<Rightarrow> nat \<Rightarrow> real \<Rightarrow> string \<Rightarrow>
   py_error + (store \<times> matrix \<times> real \<times> matrix)" where
  "cmeans_predict0_st compute_distance s test_data cntr u_old c m metric =
     (let s1 = s[u_old := mat_div (s ! u_old)
                            (dot (ones c 1) (atleast_2d (col_sums (s ! u_old))))];
          u_old2 = fmax (s1 ! u_old) eps;
          um = mat_pow u_old2 m;
          test_dataT = mat_T (s1 ! test_data);
          d0 = compute_distance test_dataT (s1 ! cntr) metric;
          d = fmax d0 eps;
          jm = mat_sum (mat_mul um (mat_sq d))
      in if m - 1 = 0 then Inl ZeroDivisionError
         else
           (let u0 = mat_pow d (- 2 / (m - 1));
                u = mat_div u0 (dot (ones c 1) (atleast_2d (col_sums u0)))
            in Inr (s1, u, jm, d)))"

text \<open>
  The loop of \<^verbatim>\<open>cmeans_predict\<close> on the store: the local variables, with \<^verbatim>\<open>u2\<close> the
  address of the copy.
\<close>

record heap_state =
  hs_store :: store
  hs_u :: matrix
  hs_u2 :: "addr option"
  hs_d :: "matrix option"
  hs_jm :: "real list"
  hs_p :: int

function predict_loop_st ::
  "distance_fn \<Rightarrow> addr \<Rightarrow> addr \<Rightarrow> nat \<Rightarrow> real \<Rightarrow> string \<Rightarrow> real \<Rightarrow> int \<Rightarrow> heap_state \<Rightarrow>
   py_error + heap_state" where
  "predict_loop_st compute_distance test_data cntr_trained c m metric error maxiter hs =
     (if hs_p hs < maxiter - 1
      then
        (let u2 = length (hs_store hs);
             s1 = hs_store hs @ [hs_u hs]
         in case cmeans_predict0_st compute_distance s1 test_data cntr_trained u2 c m metric of
              Inl e \<Rightarrow> Inl e
            | Inr (s2, u, Jjm, d) \<Rightarrow>
                (let hs' = \<lparr> hs_store = s2, hs_u = u, hs_u2 = Some u2, hs_d = Some d,
                              hs_jm = hs_jm hs @ [Jjm], hs_p = hs_p hs + 1 \<rparr>
                 in if linalg_norm (mat_sub u (s2 ! u2)) < error then Inr hs'
                    else predict_loop_st compute_distance test_data cntr_trained c m metric
                           error maxiter hs'))
      else Inr hs)"
  by pat_completeness auto
termination
  by (relation "measure (\<lambda>(cd, td, cn, c, m, metric, error, maxiter, hs).
        nat (maxiter - 1 - hs_p hs))") auto

declare predict_loop_st.simps [simp del]

definition cmeans_predict_st ::
  "distance_fn \<Rightarrow> rand_fn \<Rightarrow> store \<Rightarrow> addr \<Rightarrow> addr \<Rightarrow> real \<Rightarrow> real \<Rightarrow> int \<Rightarrow> string option \<Rightarrow>
   addr option \<Rightarrow> int option \<Rightarrow> py_error + (store \<times> predict_result)" where
  "cmeans_predict_st compute_distance rand s test_data cntr_trained m error maxiter metric_arg
       init seed =
     (let metric = keyword_metric metric_arg;
          c = length (s ! cntr_trained);
          u0 = setup_u0 rand c (ncols (s ! test_data)) (map_option (\<lambda>a. s ! a) init) seed;
          u = fmax u0 eps
      in case predict_loop_st compute_distance test_data cntr_trained c m metric error maxiter
              \<lparr> hs_store = s, hs_u = u, hs_u2 = None, hs_d = None, hs_jm = [], hs_p = 0 \<rparr> of
           Inl e \<Rightarrow> Inl e
         | Inr hs \<Rightarrow>
             (case hs_u2 hs of
                None \<Rightarrow> Inl (UnboundLocalError ''u2'')
              | Some u2 \<Rightarrow>
                  (let error' = linalg_norm (mat_sub (hs_u hs) (hs_store hs ! u2));
                       fpc = fp_coeff (hs_u hs)
                   in case hs_d hs of
                        None \<Rightarrow> Inl (UnboundLocalError ''d'')
                      | Some d \<Rightarrow>
                          Inr (hs_store hs,
                               \<lparr> q_u = hs_u hs, q_u0 = u0, q_d = d,
                                 q_jm = hs_jm hs, q_p = hs_p hs, q_fpc = fpc \<rparr>))))"

text \<open>The local variables of the loop with the array at \<^verbatim>\<open>u2\<close> read from the store.\<close>

definition abs_state :: "heap_state \<Rightarrow> matrix loop_state" where
  "abs_state hs =
     \<lparr> st_u = hs_u hs, st_u2 = map_option (\<lambda>a. hs_store hs ! a) (hs_u2 hs),
       st_outs = hs_d hs, st_jm = hs_jm hs, st_p = hs_p hs \<rparr>"

subsection \<open>Concrete runs\<close>

text \<open>
  For runs on concrete inputs: a distance function in the place of \<^verbatim>\<open>compute_distance\<close>
  (one row per center and one column per sample, the city-block distance for the metric
  \<open>cityblock\<close> and the Euclidean distance for any other), and a constant array in the
  place of the random one.
\<close>

definition sample_distance :: distance_fn where
  "sample_distance X C metric =
     map (\<lambda>c. map (\<lambda>x. if metric = ''cityblock'' then (\<Sum>(a, b)\<leftarrow>zip x c. \<bar>a - b\<bar>)
                          else sqrt (\<Sum>(a, b)\<leftarrow>zip x c. (a - b) ^ 2)) X) C"

definition sample_rand :: rand_fn where
  "sample_rand seed c n = replicate c (replicate n (1 / 2))"

text \<open>A store for concrete runs: the test data, the trained centers and an initial matrix.\<close>

definition sample_store :: store where
  "sample_store = [[[0, 1, 4]], [[0], [4]], [[1, 2, 3], [3, 2, 1]]]"

section \<open>Properties of load_df_in_any_format\<close>

lemma map_sum_Some_case:
  "(case map_sum id Some r of Inl e \<Rightarrow> Inl e
      | Inr None \<Rightarrow> Inl (UnboundLocalError ''df'')
      | Inr (Some df) \<Rightarrow> Inr df) = r"
  by (cases r) simp_all


lemma splitext_examples:
  "snd (splitext ''out/a.csv'') = ''.csv''"
  "snd (splitext ''a.xlsx'') = ''.xlsx''"
  "snd (splitext ''a.b/c.txt'') = ''.txt''"
  "snd (splitext ''data.CSV'') = ''.CSV''"
  "snd (splitext ''a.b/data'') = []"
  "snd (splitext ''.csv'') = []"
  by (simp_all add: splitext_def Let_def)


text \<open>
  Claim C9. When the extension that \<^verbatim>\<open>os.path.splitext\<close> returns is none of
  \<open>.csv\<close>, \<open>.xlsx\<close>, \<open>.txt\<close> (compared exactly, so \<open>.CSV\<close> and the empty
  extension are among them), no branch assigns \<^verbatim>\<open>df\<close> and the \<^verbatim>\<open>return df\<close>
  raises UnboundLocalError; no library function is called.
\<close>

theorem load_df_unknown_extension:
  "snd (splitext file) \<notin> {''.csv'', ''.xlsx'', ''.txt''} \<Longrightarrow>
   load_df_in_any_format env file = Inl (UnboundLocalError ''df'')"
  by (simp add: load_df_in_any_format_def Let_def)

theorem load_df_unknown_extension_witness:
  "snd (splitext ''data.CSV'') \<notin> {''.csv'', ''.xlsx'', ''.txt''} \<and>
   load_df_in_any_format echo_env ''data.CSV'' = Inl (UnboundLocalError ''df'') \<and>
   snd (splitext ''a.b/data'') \<notin> {''.csv'', ''.xlsx'', ''.txt''} \<and>
   load_df_in_any_format echo_env ''a.b/data'' = Inl (UnboundLocalError ''df'')"
  using load_df_unknown_extension [of "''data.CSV''" echo_env]
    load_df_unknown_extension [of "''a.b/data''" echo_env]
  by (simp add: splitext_examples)

section \<open>Properties of flexible_barplot\<close>

lemma floor_sqrt_pos: "1 \<le> n \<Longrightarrow> 1 \<le> \<lfloor>sqrt (real_of_int n)\<rfloor>"
proof -
  assume "1 \<le> n"
  then have "1 \<le> sqrt (real_of_int n)" by simp
  then show ?thesis by (simp add: le_floor_iff)
qed

text \<open>
  The arithmetic of the layout: for every \<open>num_axes \<ge> 1\<close> the rows are the floor of the
  square root, the columns the ceiling of the quotient, and the grid has room for every
  plot.
\<close>

lemma determine_layout_ok:
  assumes "1 \<le> n"
  shows "\<exists>r c. determine_layout n = Inr (r, c) \<and> r = \<lfloor>sqrt (real_of_int n)\<rfloor>
     \<and> c = \<lceil>real_of_int n / real_of_int r\<rceil> \<and> 1 \<le> r \<and> n \<le> r * c"
proof -
  define r where "r = \<lfloor>sqrt (real_of_int n)\<rfloor>"
  define c where "c = \<lceil>real_of_int n / real_of_int r\<rceil>"
  have r1: "1 \<le> r" unfolding r_def using assms by (rule floor_sqrt_pos)
  have "real_of_int n / real_of_int r \<le> real_of_int c" unfolding c_def by (rule le_of_int_ceiling)
  with r1 have "real_of_int n \<le> real_of_int r * real_of_int c"
    by (simp add: field_simps)
  then have "real_of_int n \<le> real_of_int (r * c)" by simp
  then have nrc: "n \<le> r * c" by (simp only: of_int_le_iff)
  have "determine_layout n = Inr (r, c)"
    using assms r1 by (simp add: determine_layout_def Let_def r_def [symmetric] c_def [symmetric])
  with r1 nrc show ?thesis by (simp add: r_def c_def)
qed

lemma plot_axes_map:
  "(\<And>i. i \<in> set axs \<Longrightarrow> int i < num_axes \<Longrightarrow> i < length vals) \<Longrightarrow>
   plot_axes vals num_axes axs =
     Inr (map (\<lambda>i. if int i < num_axes then BarPlot i (vals ! i) else AxisOff) axs)"
  by (induction axs) simp_all

text \<open>
  From two axes on, the grid is an array of \<open>num_rows * num_cols\<close> axes, at least
  \<open>num_axes\<close> of them: axis \<open>i\<close> draws \<^verbatim>\<open>values[i]\<close> for every \<open>i < num_axes\<close>, and
  every later axis is turned off.
\<close>

lemma flexible_barplot_grid:
  assumes n: "2 \<le> num_axes" and vals: "num_axes \<le> int (length vals)"
  shows "\<exists>r c us. determine_layout num_axes = Inr (r, c) \<and> num_axes \<le> r * c \<and>
           flexible_barplot vals num_axes = Inr us \<and> int (length us) = r * c \<and>
           (\<forall>i. int i < num_axes \<longrightarrow> us ! i = BarPlot i (vals ! i)) \<and>
           (\<forall>i. num_axes \<le> int i \<longrightarrow> int i < r * c \<longrightarrow> us ! i = AxisOff)"
proof -
  from n have "1 \<le> num_axes" by simp
  from determine_layout_ok [OF this] obtain r c where
    dl: "determine_layout num_axes = Inr (r, c)" and r1: "1 \<le> r" and rc: "num_axes \<le> r * c"
    by blast
  define us where "us = map (\<lambda>i. if int i < num_axes then BarPlot i (vals ! i) else AxisOff)
     [0..<nat (r * c)]"
  have ne: "\<not> (r = 1 \<and> c = 1)" using n rc by auto
  have "plot_axes vals num_axes [0..<nat (r * c)] = Inr us"
    unfolding us_def using vals by (intro plot_axes_map) simp
  with dl ne have fb: "flexible_barplot vals num_axes = Inr us"
    by (simp add: flexible_barplot_def subplots_def)
  have len: "int (length us) = r * c" using n rc by (simp add: us_def)
  have a: "us ! i = BarPlot i (vals ! i)" if "int i < num_axes" for i
    using that rc by (simp add: us_def)
  have b: "us ! i = AxisOff" if "num_axes \<le> int i" "int i < r * c" for i
    using that by (simp add: us_def)
  from dl rc fb len a b show ?thesis by blast
qed

text \<open>
  Claim C10. The layout is \<open>(\<lfloor>sqrt n\<rfloor>, \<lceil>n / rows\<rceil>)\<close> and large enough for every
  \<open>num_axes \<ge> 1\<close> (\<open>determine_layout_ok\<close>), and every plot gets its axis from two axes
  on (\<open>flexible_barplot_grid\<close>). With a single axis the layout is 1 x 1, for which
  \<^verbatim>\<open>plt.subplots\<close> returns one Axes object and not an array: \<^verbatim>\<open>axes.flat\<close> raises
  AttributeError and no bar plot is drawn.
\<close>

theorem flexible_barplot_single_axis:
  "determine_layout 1 = Inr (1, 1) \<and> flexible_barplot [[1 / 2, - 1 / 4]] 1 = Inl AttributeError"
  by (simp add: flexible_barplot_def determine_layout_def subplots_def)

section \<open>Properties of the step functions\<close>
















lemma has_shape_map_map: "has_shape r k M \<Longrightarrow> has_shape r k (map (map f) M)"
  by (simp add: has_shape_def list_all_iff)










lemma cmeans0_Inr:
  assumes "cmeans0 cd data u_old c m metric = Inr (a, cntr, u, jm, d)"
  shows "m \<noteq> 1"
    and "a = mat_div u_old (dot (ones c 1) (atleast_2d (col_sums u_old)))"
    and "cntr = mat_div (dot (mat_pow (fmax a eps) m) (mat_T data))
            (mat_T (dot (ones (ncols (mat_T data)) 1)
               (atleast_2d (row_sums (mat_pow (fmax a eps) m)))))"
    and "d = fmax (cd (mat_T data) cntr metric) eps"
    and "u = mat_div (mat_pow d (- 2 / (m - 1)))
            (dot (ones c 1) (atleast_2d (col_sums (mat_pow d (- 2 / (m - 1))))))"
  using assms by (auto simp: cmeans0_def Let_def split: if_splits)









section \<open>Properties of the main loop\<close>

lemma main_loop_not_entered:
  "\<not> st_p st < maxiter - 1 \<Longrightarrow> main_loop step error maxiter st = Inr st"
  by (subst main_loop.simps) simp

lemma iterate_front:
  "iterate step st (Suc k) =
     (case loop_body step st of Inl e \<Rightarrow> Inl e | Inr st1 \<Rightarrow> iterate step st1 k)"
  by (induction k) (auto split: sum.splits)

lemma stops_at_front:
  "loop_body step st = Inr st1 \<Longrightarrow> stops_at step error st (Suc k) = stops_at step error st1 k"
  unfolding stops_at_def by (simp only: iterate_front) simp

lemma main_loop_run:
  assumes "main_loop step error maxiter st = Inr st'"
  shows "\<exists>k. iterate step st k = Inr st' \<and> st_p st' = st_p st + int k \<and>
             (\<forall>j. 0 < j \<and> j < k \<longrightarrow> \<not> stops_at step error st j) \<and>
             (if st_p st < maxiter - 1
              then 0 < k \<and> st_p st' \<le> maxiter - 1 \<and>
                   (st_p st' < maxiter - 1 \<longrightarrow> stops_at step error st k)
              else k = 0)"
  using assms
proof (induction step error maxiter st rule: main_loop.induct)
  case (1 step error maxiter st)
  show ?case
  proof (cases "st_p st < maxiter - 1")
    case False
    with "1.prems" have "st' = st" by (simp add: main_loop_not_entered)
    with False show ?thesis by (intro exI [of _ 0]) simp
  next
    case True
    from "1.prems" True obtain st1 where body: "loop_body step st = Inr st1"
      by (subst (asm) main_loop.simps) (auto split: sum.splits)
    have p1: "st_p st1 = st_p st + 1" using body by (rule loop_body_p)
    show ?thesis
    proof (cases "stopping_rule error st1")
      case stop: True
      with "1.prems" True body have "st' = st1"
        by (subst (asm) main_loop.simps) simp
      with body p1 True stop show ?thesis
        by (intro exI [of _ 1]) (simp add: stops_at_def)
    next
      case nostop: False
      with "1.prems" True body have rec: "main_loop step error maxiter st1 = Inr st'"
        by (subst (asm) main_loop.simps) simp
      from "1.IH" [OF True body nostop rec] obtain k where
        it: "iterate step st1 k = Inr st'" and pk: "st_p st' = st_p st1 + int k" and
        no: "\<forall>j. 0 < j \<and> j < k \<longrightarrow> \<not> stops_at step error st1 j" and
        fin: "if st_p st1 < maxiter - 1
              then 0 < k \<and> st_p st' \<le> maxiter - 1 \<and>
                   (st_p st' < maxiter - 1 \<longrightarrow> stops_at step error st1 k)
              else k = 0"
        by blast
      have it': "iterate step st (Suc k) = Inr st'"
        using body it by (simp only: iterate_front) simp
      have pk': "st_p st' = st_p st + int (Suc k)" using pk p1 by simp
      have no': "\<not> stops_at step error st j" if "0 < j" "j < Suc k" for j
      proof (cases j)
        case 0 with that show ?thesis by simp
      next
        case (Suc i)
        show ?thesis
        proof (cases i)
          case 0
          with Suc body nostop show ?thesis by (simp add: stops_at_def)
        next
          case (Suc i')
          with \<open>j = Suc i\<close> that no have "\<not> stops_at step error st1 i" by simp
          with body \<open>j = Suc i\<close> show ?thesis by (simp add: stops_at_front)
        qed
      qed
      have fin': "st_p st' \<le> maxiter - 1 \<and>
                   (st_p st' < maxiter - 1 \<longrightarrow> stops_at step error st (Suc k))"
      proof (cases "st_p st1 < maxiter - 1")
        case True
        with fin body show ?thesis by (simp add: stops_at_front)
      next
        case False
        with fin have "k = 0" by simp
        with pk p1 True False show ?thesis by simp
      qed
      from it' pk' no' fin' True show ?thesis
        by (intro exI [of _ "Suc k"]) simp
    qed
  qed
qed

lemma iterate_jm: "iterate step st k = Inr st' \<Longrightarrow> length (st_jm st') = length (st_jm st) + k"
proof (induction k arbitrary: st')
  case 0 then show ?case by simp
next
  case (Suc k)
  then obtain s where s: "iterate step st k = Inr s" and b: "loop_body step s = Inr st'"
    by (auto split: sum.splits)
  from b have "length (st_jm st') = length (st_jm s) + 1"
    by (auto simp: loop_body_def split: sum.splits prod.splits)
  with Suc.IH [OF s] show ?case by simp
qed

lemma main_loop_total:
  assumes "\<forall>u. \<exists>r. step u = Inr r"
  shows "\<exists>st'. main_loop step error maxiter st = Inr st'"
  using assms
proof (induction step error maxiter st rule: main_loop.induct)
  case (1 step error maxiter st)
  show ?case
  proof (cases "st_p st < maxiter - 1")
    case False
    then show ?thesis by (simp add: main_loop_not_entered)
  next
    case True
    from "1.prems" obtain r where "step (st_u st) = Inr r" by blast
    then obtain st1 where body: "loop_body step st = Inr st1"
      by (cases r) (simp add: loop_body_def)
    show ?thesis
    proof (cases "stopping_rule error st1")
      case True
      with \<open>st_p st < maxiter - 1\<close> body show ?thesis
        by (subst main_loop.simps) simp
    next
      case False
      from "1.IH" [OF True body False "1.prems"] obtain st' where
        "main_loop step error maxiter st1 = Inr st'" by blast
      with True body False show ?thesis
        by (subst main_loop.simps) simp
    qed
  qed
qed


lemma predict_step_total: "m \<noteq> 1 \<Longrightarrow> \<exists>r. predict_step cd data cntr c m metric u = Inr r"
  by (simp add: predict_step_def cmeans_predict0_def Let_def)

lemma iterate_u2:
  "iterate step st k = Inr st' \<Longrightarrow> 0 < k \<Longrightarrow> st_u2 st' \<noteq> None \<and> st_outs st' \<noteq> None"
  by (cases k) (auto simp: loop_body_def split: sum.splits prod.splits)

lemma main_loop_result:
  assumes mi: "2 \<le> maxiter" and tot: "\<forall>u. \<exists>r. step u = Inr r"
  shows "\<exists>st. main_loop step error maxiter (init_state u0) = Inr st \<and>
           st_u2 st \<noteq> None \<and> st_outs st \<noteq> None \<and>
           loop_result step error maxiter u0 (st_u st) (st_jm st) (st_p st)"
proof -
  from main_loop_total [OF tot] obtain st where
    ml: "main_loop step error maxiter (init_state u0) = Inr st" by blast
  have p0: "st_p (init_state u0 :: 'a loop_state) = 0" by (simp add: init_state_def)
  from main_loop_run [OF ml] mi p0 obtain k where
    it: "iterate step (init_state u0) k = Inr st" and pk: "st_p st = int k" and
    no: "\<forall>j. 0 < j \<and> j < k \<longrightarrow> \<not> stops_at step error (init_state u0) j" and
    k0: "0 < k" and le: "st_p st \<le> maxiter - 1" and
    fin: "st_p st < maxiter - 1 \<longrightarrow> stops_at step error (init_state u0) k"
    by auto
  have nk: "nat (st_p st) = k" using pk by simp
  from iterate_jm [OF it] have jm: "int (length (st_jm st)) = st_p st"
    using pk by (simp add: init_state_def)
  from iterate_u2 [OF it k0] have u2: "st_u2 st \<noteq> None" "st_outs st \<noteq> None" by simp_all
  have "loop_result step error maxiter u0 (st_u st) (st_jm st) (st_p st)"
    unfolding loop_result_def nk using it pk no k0 le fin jm by auto
  with ml u2 show ?thesis by blast
qed



lemma predict_loop_result:
  assumes mi: "2 \<le> maxiter" and m: "m \<noteq> 1"
  shows "\<exists>r. cmeans_predict cd rand test_data cntr_trained m error maxiter (Some metric) init seed = Inr r \<and>
           loop_result (predict_step cd test_data cntr_trained (length cntr_trained) m metric)
             error maxiter
             (fmax (setup_u0 rand (length cntr_trained) (ncols test_data) init seed) eps)
             (q_u r) (q_jm r) (q_p r)"
proof -
  have tot: "\<forall>u. \<exists>r. predict_step cd test_data cntr_trained (length cntr_trained) m metric u = Inr r"
    by (intro allI predict_step_total m)
  from main_loop_result [OF mi tot] obtain st where
    ml: "main_loop (predict_step cd test_data cntr_trained (length cntr_trained) m metric)
           error maxiter
           (init_state (fmax (setup_u0 rand (length cntr_trained) (ncols test_data) init seed) eps))
         = Inr st" and
    u2: "st_u2 st \<noteq> None" and outs: "st_outs st \<noteq> None" and
    lr: "loop_result (predict_step cd test_data cntr_trained (length cntr_trained) m metric)
           error maxiter
           (fmax (setup_u0 rand (length cntr_trained) (ncols test_data) init seed) eps)
           (st_u st) (st_jm st) (st_p st)"
    by blast
  from u2 outs obtain v d where "st_u2 st = Some v" "st_outs st = Some d" by auto
  with ml lr show ?thesis by (simp add: cmeans_predict_def Let_def keyword_metric_def)
qed




text \<open>
  Claim C8. With \<open>maxiter \<le> 1\<close> the loop condition \<open>p < maxiter - 1\<close> fails at
  \<open>p = 0\<close>: the loop hands back the state it was given, in which \<^verbatim>\<open>u2\<close>, \<^verbatim>\<open>cntr\<close>
  and \<^verbatim>\<open>d\<close> are unbound, and both \<^verbatim>\<open>cmeans\<close> and \<^verbatim>\<open>cmeans_predict\<close> raise
  UnboundLocalError at the first of them they read, \<^verbatim>\<open>u2\<close>, instead of returning.
\<close>

theorem maxiter_le_1_unbound:
  "maxiter \<le> 1 \<Longrightarrow>
   main_loop (cmeans_step cd data c m metric) error maxiter (init_state u) = Inr (init_state u) \<and>
   main_loop (predict_step cd test_data cntr_trained c' m metric) error maxiter (init_state u)
     = Inr (init_state u) \<and>
   cmeans cd rand data c m error maxiter (Some metric) init seed = Inl (UnboundLocalError ''u2'') \<and>
   cmeans_predict cd rand test_data cntr_trained m error maxiter (Some metric) init' seed'
     = Inl (UnboundLocalError ''u2'')"
  by (simp add: cmeans_def cmeans_predict_def Let_def main_loop_not_entered init_state_def)

theorem maxiter_le_1_unbound_witness:
  "(1::int) \<le> 1 \<and>
   cmeans sample_distance sample_rand [[0, 1, 4]] 2 2 (1 / 100) 1 (Some ''euclidean'') None None
     = Inl (UnboundLocalError ''u2'') \<and>
   cmeans_predict sample_distance sample_rand [[0, 1, 4]] [[0], [4]] 2 (1 / 100) 1 (Some ''euclidean'')
       (Some [[1, 1, 0], [0, 0, 1]]) None
     = Inl (UnboundLocalError ''u2'') \<and>
   cmeans sample_distance sample_rand [[0, 1, 4]] 2 2 (1 / 100) 0 (Some ''euclidean'') None (Some 7)
     = Inl (UnboundLocalError ''u2'')"
  using maxiter_le_1_unbound [where maxiter = 1 and cd = sample_distance and rand = sample_rand
        and data = "[[0, 1, 4]]" and c = 2 and m = 2 and error = "1 / 100"
        and metric = "''euclidean''" and init = None and seed = None
        and test_data = "[[0, 1, 4]]" and cntr_trained = "[[0], [4]]"
        and init' = "Some [[1, 1, 0], [0, 0, 1]]" and seed' = None]
    maxiter_le_1_unbound [where maxiter = 0 and cd = sample_distance and rand = sample_rand
        and data = "[[0, 1, 4]]" and c = 2 and m = 2 and error = "1 / 100"
        and metric = "''euclidean''" and init = None and seed = "Some 7"]
  by simp




section \<open>Normalization of the membership matrix\<close>
















section \<open>The metric\<close>













section \<open>Prediction and the trained centers\<close>

lemma cmeans_predict0_st_value:
  assumes "test_data \<noteq> u_old" and "cntr \<noteq> u_old" and "u_old < length s"
  shows "cmeans_predict0_st cd s test_data cntr u_old c m metric =
           (case cmeans_predict0 cd (s ! test_data) (s ! cntr) (s ! u_old) c m metric of
              Inl e \<Rightarrow> Inl e
            | Inr (a, u, jm, d) \<Rightarrow> Inr (s[u_old := a], u, jm, d))"
  using assms by (simp add: cmeans_predict0_st_def cmeans_predict0_def Let_def)

lemma abs_state_simps:
  "st_p (abs_state hs) = hs_p hs" "st_u (abs_state hs) = hs_u hs"
  by (simp_all add: abs_state_def)

lemma predict_loop_sim:
  assumes "test_data < length s0" and "cntr_trained < length s0"
    and "take (length s0) (hs_store hs) = s0"
  shows "case predict_loop_st cd test_data cntr_trained c m metric error maxiter hs of
           Inl e \<Rightarrow>
             main_loop (predict_step cd (s0 ! test_data) (s0 ! cntr_trained) c m metric)
               error maxiter (abs_state hs) = Inl e
         | Inr hs' \<Rightarrow>
             main_loop (predict_step cd (s0 ! test_data) (s0 ! cntr_trained) c m metric)
               error maxiter (abs_state hs) = Inr (abs_state hs') \<and>
             take (length s0) (hs_store hs') = s0"
  using assms
proof (induction cd test_data cntr_trained c m metric error maxiter hs
    rule: predict_loop_st.induct)
  case (1 cd test_data cntr_trained c m metric error maxiter hs)
  let ?step = "predict_step cd (s0 ! test_data) (s0 ! cntr_trained) c m metric"
  note td = "1.prems"(1) and cn = "1.prems"(2) and tk = "1.prems"(3)
  show ?case
  proof (cases "hs_p hs < maxiter - 1")
    case False
    then have "predict_loop_st cd test_data cntr_trained c m metric error maxiter hs = Inr hs"
      by (subst predict_loop_st.simps) simp
    moreover from False have "main_loop ?step error maxiter (abs_state hs) = Inr (abs_state hs)"
      by (intro main_loop_not_entered) (simp add: abs_state_simps)
    ultimately show ?thesis using tk by simp
  next
    case True
    define u2 where "u2 = length (hs_store hs)"
    define s1 where "s1 = hs_store hs @ [hs_u hs]"
    have len: "length s0 \<le> length (hs_store hs)"
    proof -
      have "length (take (length s0) (hs_store hs)) = length s0" by (simp only: tk)
      then show ?thesis by simp
    qed
    have td1: "s1 ! test_data = s0 ! test_data"
    proof -
      have "s0 ! test_data = take (length s0) (hs_store hs) ! test_data" by (simp only: tk)
      also have "\<dots> = hs_store hs ! test_data" using td by simp
      finally show ?thesis using td len by (simp add: s1_def nth_append)
    qed
    have cn1: "s1 ! cntr_trained = s0 ! cntr_trained"
    proof -
      have "s0 ! cntr_trained = take (length s0) (hs_store hs) ! cntr_trained" by (simp only: tk)
      also have "\<dots> = hs_store hs ! cntr_trained" using cn by simp
      finally show ?thesis using cn len by (simp add: s1_def nth_append)
    qed
    have u1: "s1 ! u2 = hs_u hs" by (simp add: s1_def u2_def)
    have ne: "test_data \<noteq> u2" "cntr_trained \<noteq> u2" and lt: "u2 < length s1"
      using td cn len by (simp_all add: u2_def s1_def)
    have step: "cmeans_predict0_st cd s1 test_data cntr_trained u2 c m metric =
           (case cmeans_predict0 cd (s0 ! test_data) (s0 ! cntr_trained) (hs_u hs) c m metric of
              Inl e \<Rightarrow> Inl e
            | Inr (a, u, jm, d) \<Rightarrow> Inr (s1[u2 := a], u, jm, d))"
      using cmeans_predict0_st_value [OF ne lt, of cd c m metric] by (simp only: td1 cn1 u1)
    show ?thesis
    proof (cases "cmeans_predict0 cd (s0 ! test_data) (s0 ! cntr_trained) (hs_u hs) c m metric")
      case (Inl e)
      with step have "cmeans_predict0_st cd s1 test_data cntr_trained u2 c m metric = Inl e"
        by simp
      with True have "predict_loop_st cd test_data cntr_trained c m metric error maxiter hs = Inl e"
        by (subst predict_loop_st.simps) (simp add: Let_def u2_def s1_def)
      moreover from Inl have "loop_body ?step (abs_state hs) = Inl e"
        by (simp add: loop_body_def predict_step_def abs_state_simps)
      with True have "main_loop ?step error maxiter (abs_state hs) = Inl e"
        by (subst main_loop.simps) (simp add: abs_state_simps)
      ultimately show ?thesis by simp
    next
      case (Inr r)
      obtain a u J d where r: "r = (a, u, J, d)" by (cases r)
      define s2 where "s2 = s1[u2 := a]"
      define hs' where "hs' = \<lparr> hs_store = s2, hs_u = u, hs_u2 = Some u2, hs_d = Some d,
                              hs_jm = hs_jm hs @ [J], hs_p = hs_p hs + 1 \<rparr>"
      from step Inr r have st: "cmeans_predict0_st cd s1 test_data cntr_trained u2 c m metric
          = Inr (s2, u, J, d)"
        by (simp add: s2_def)
      have s2u: "s2 ! u2 = a" using lt by (simp add: s2_def)
      have tk2: "take (length s0) s2 = s0"
        using tk len by (simp add: s2_def s1_def u2_def)
      have body: "loop_body ?step (abs_state hs) = Inr (abs_state hs')"
        using Inr r s2u
        by (simp add: loop_body_def predict_step_def abs_state_def hs'_def)
      have stop: "stopping_rule error (abs_state hs') = (linalg_norm (mat_sub u (s2 ! u2)) < error)"
        by (simp add: stopping_rule_def abs_state_def hs'_def)
      show ?thesis
      proof (cases "linalg_norm (mat_sub u (s2 ! u2)) < error")
        case stopped: True
        with True st have "predict_loop_st cd test_data cntr_trained c m metric error maxiter hs
            = Inr hs'"
          by (subst predict_loop_st.simps) (simp add: Let_def u2_def s1_def hs'_def)
        moreover from True body stop stopped have
          "main_loop ?step error maxiter (abs_state hs) = Inr (abs_state hs')"
          by (subst main_loop.simps) (simp add: abs_state_simps)
        ultimately show ?thesis using tk2 by (simp add: hs'_def)
      next
        case running: False
        with True st have e1:
          "predict_loop_st cd test_data cntr_trained c m metric error maxiter hs
            = predict_loop_st cd test_data cntr_trained c m metric error maxiter hs'"
          by (subst predict_loop_st.simps) (simp add: Let_def u2_def s1_def hs'_def)
        from True body stop running have e2:
          "main_loop ?step error maxiter (abs_state hs)
            = main_loop ?step error maxiter (abs_state hs')"
          by (subst main_loop.simps) (simp add: abs_state_simps)
        have tk': "take (length s0) (hs_store hs') = s0"
          using tk2 by (simp add: hs'_def)
        show ?thesis
          unfolding e1 e2
          by (rule "1.IH" [OF True u2_def s1_def st refl refl refl hs'_def running td cn tk'])
      qed
    qed
  qed
qed

lemma cmeans_predict_st_value:
  assumes td: "test_data < length s" and cn: "cntr_trained < length s"
  shows "case cmeans_predict_st cd rand s test_data cntr_trained m error maxiter metric init seed of
           Inl e \<Rightarrow>
             cmeans_predict cd rand (s ! test_data) (s ! cntr_trained) m error maxiter metric
               (map_option (\<lambda>a. s ! a) init) seed = Inl e
         | Inr (s', q) \<Rightarrow>
             cmeans_predict cd rand (s ! test_data) (s ! cntr_trained) m error maxiter metric
               (map_option (\<lambda>a. s ! a) init) seed = Inr q \<and>
             take (length s) s' = s"
proof -
  define c where "c = length (s ! cntr_trained)"
  define u0 where
    "u0 = setup_u0 rand c (ncols (s ! test_data)) (map_option (\<lambda>a. s ! a) init) seed"
  define hs0 where "hs0 = \<lparr> hs_store = s, hs_u = fmax u0 eps, hs_u2 = None, hs_d = None,
      hs_jm = [], hs_p = 0 \<rparr>"
  let ?step = "predict_step cd (s ! test_data) (s ! cntr_trained) c m (keyword_metric metric)"
  have a0: "abs_state hs0 = init_state (fmax u0 eps)"
    by (simp add: abs_state_def hs0_def init_state_def)
  have tk: "take (length s) (hs_store hs0) = s" by (simp add: hs0_def)
  note sim = predict_loop_sim [OF td cn tk, of cd c m "keyword_metric metric" error maxiter,
      unfolded a0]
  have st: "cmeans_predict_st cd rand s test_data cntr_trained m error maxiter metric init seed =
      (case predict_loop_st cd test_data cntr_trained c m (keyword_metric metric) error maxiter hs0 of
         Inl e \<Rightarrow> Inl e
       | Inr hs \<Rightarrow>
           (case hs_u2 hs of
              None \<Rightarrow> Inl (UnboundLocalError ''u2'')
            | Some u2 \<Rightarrow>
                (case hs_d hs of
                   None \<Rightarrow> Inl (UnboundLocalError ''d'')
                 | Some d \<Rightarrow>
                     Inr (hs_store hs,
                          \<lparr> q_u = hs_u hs, q_u0 = u0, q_d = d,
                            q_jm = hs_jm hs, q_p = hs_p hs, q_fpc = fp_coeff (hs_u hs) \<rparr>))))"
    unfolding cmeans_predict_st_def Let_def c_def u0_def hs0_def ..
  have va: "cmeans_predict cd rand (s ! test_data) (s ! cntr_trained) m error maxiter metric
               (map_option (\<lambda>a. s ! a) init) seed =
      (case main_loop ?step error maxiter (init_state (fmax u0 eps)) of
         Inl e \<Rightarrow> Inl e
       | Inr st \<Rightarrow>
           (case st_u2 st of
              None \<Rightarrow> Inl (UnboundLocalError ''u2'')
            | Some u2 \<Rightarrow>
                (case st_outs st of
                   None \<Rightarrow> Inl (UnboundLocalError ''d'')
                 | Some d \<Rightarrow>
                     Inr \<lparr> q_u = st_u st, q_u0 = u0, q_d = d,
                           q_jm = st_jm st, q_p = st_p st, q_fpc = fp_coeff (st_u st) \<rparr>)))"
    unfolding cmeans_predict_def Let_def c_def u0_def ..
  show ?thesis
  proof (cases "predict_loop_st cd test_data cntr_trained c m (keyword_metric metric) error maxiter hs0")
    case (Inl e)
    with sim have "main_loop ?step error maxiter (init_state (fmax u0 eps)) = Inl e" by simp
    with Inl show ?thesis unfolding st va by simp
  next
    case (Inr hs)
    with sim have ml: "main_loop ?step error maxiter (init_state (fmax u0 eps)) = Inr (abs_state hs)"
      and tk': "take (length s) (hs_store hs) = s" by simp_all
    show ?thesis unfolding st va Inr ml using tk'
      by (simp add: abs_state_def split: option.splits)
  qed
qed

lemma cmeans0_then_predict0:
  assumes "cmeans0 cd data u_old c m metric = Inr (a, cntr, u, jm, d)"
  shows "cmeans_predict0 cd data cntr u_old c m metric = Inr (a, u, jm, d)"
  using assms by (auto simp: cmeans0_def cmeans_predict0_def Let_def split: if_splits)

lemma cmeans_predict0_outputs:
  assumes "cmeans_predict0 cd test_data cntr u_old c m metric = Inr (a, u, jm, d)"
  shows "d = fmax (cd (mat_T test_data) cntr metric) eps"
    and "jm = mat_sum (mat_mul (mat_pow (fmax a eps) m) (mat_sq d))"
    and "u = mat_div (mat_pow d (- 2 / (m - 1)))
               (dot (ones c 1) (atleast_2d (col_sums (mat_pow d (- 2 / (m - 1))))))"
  using assms by (auto simp: cmeans_predict0_def Let_def split: if_splits)

text \<open>
  Claim C4. With the test data and the trained centers in the store, a run of
  \<^verbatim>\<open>cmeans_predict\<close> returns what the run on their values returns, and every array that
  was in the store before the call holds the same values after it, the trained centers
  among them. A prediction step writes to the array \<^verbatim>\<open>u_old\<close> alone, which in the loop
  is always a fresh copy; the distance matrix, objective and membership matrix it returns
  are computed from the distance of the test data to the centers it was given. The
  training step differs in that it first computes centers from \<open>u_old\<close> and the data, and
  then returns what the prediction step returns for these centers.
\<close>

theorem prediction_keeps_centers:
  assumes "test_data < length s" and "cntr_trained < length s"
  shows "(case cmeans_predict_st cd rand s test_data cntr_trained m error maxiter metric init seed of
            Inl e \<Rightarrow>
              cmeans_predict cd rand (s ! test_data) (s ! cntr_trained) m error maxiter metric
                (map_option (\<lambda>a. s ! a) init) seed = Inl e
          | Inr (s', q) \<Rightarrow>
              cmeans_predict cd rand (s ! test_data) (s ! cntr_trained) m error maxiter metric
                (map_option (\<lambda>a. s ! a) init) seed = Inr q \<and>
              take (length s) s' = s \<and> s' ! cntr_trained = s ! cntr_trained) \<and>
         (\<forall>u_old. u_old < length s \<longrightarrow> test_data \<noteq> u_old \<longrightarrow> cntr_trained \<noteq> u_old \<longrightarrow>
            cmeans_predict0_st cd s test_data cntr_trained u_old c m metric' =
              (case cmeans_predict0 cd (s ! test_data) (s ! cntr_trained) (s ! u_old) c m metric' of
                 Inl e \<Rightarrow> Inl e
               | Inr (a, u, jm, d) \<Rightarrow> Inr (s[u_old := a], u, jm, d))) \<and>
         (\<forall>a u jm d.
            cmeans_predict0 cd (s ! test_data) (s ! cntr_trained) v_old c m metric' = Inr (a, u, jm, d) \<longrightarrow>
            d = fmax (cd (mat_T (s ! test_data)) (s ! cntr_trained) metric') eps \<and>
            jm = mat_sum (mat_mul (mat_pow (fmax a eps) m) (mat_sq d)) \<and>
            u = mat_div (mat_pow d (- 2 / (m - 1)))
                  (dot (ones c 1) (atleast_2d (col_sums (mat_pow d (- 2 / (m - 1))))))) \<and>
         (\<forall>a cntr u jm d.
            cmeans0 cd (s ! test_data) v_old c m metric' = Inr (a, cntr, u, jm, d) \<longrightarrow>
            cntr = mat_div (dot (mat_pow (fmax a eps) m) (mat_T (s ! test_data)))
                     (mat_T (dot (ones (ncols (mat_T (s ! test_data))) 1)
                        (atleast_2d (row_sums (mat_pow (fmax a eps) m))))) \<and>
            cmeans_predict0 cd (s ! test_data) cntr v_old c m metric' = Inr (a, u, jm, d))"
proof -
  have run: "case cmeans_predict_st cd rand s test_data cntr_trained m error maxiter metric init seed of
            Inl e \<Rightarrow>
              cmeans_predict cd rand (s ! test_data) (s ! cntr_trained) m error maxiter metric
                (map_option (\<lambda>a. s ! a) init) seed = Inl e
          | Inr (s', q) \<Rightarrow>
              cmeans_predict cd rand (s ! test_data) (s ! cntr_trained) m error maxiter metric
                (map_option (\<lambda>a. s ! a) init) seed = Inr q \<and>
              take (length s) s' = s \<and> s' ! cntr_trained = s ! cntr_trained"
  proof (cases "cmeans_predict_st cd rand s test_data cntr_trained m error maxiter metric init seed")
    case (Inl e)
    with cmeans_predict_st_value [OF assms, of cd rand m error maxiter metric init seed]
    show ?thesis by simp
  next
    case (Inr r)
    obtain s' q where r: "r = (s', q)" by (cases r)
    from cmeans_predict_st_value [OF assms, of cd rand m error maxiter metric init seed] Inr r
    have v: "cmeans_predict cd rand (s ! test_data) (s ! cntr_trained) m error maxiter metric
                (map_option (\<lambda>a. s ! a) init) seed = Inr q"
      and tk: "take (length s) s' = s" by simp_all
    have "s ! cntr_trained = take (length s) s' ! cntr_trained" by (simp only: tk)
    also have "\<dots> = s' ! cntr_trained" using assms(2) by simp
    finally have "s' ! cntr_trained = s ! cntr_trained" by simp
    with Inr r v tk show ?thesis by simp
  qed
  have step: "cmeans_predict0_st cd s test_data cntr_trained u_old c m metric' =
              (case cmeans_predict0 cd (s ! test_data) (s ! cntr_trained) (s ! u_old) c m metric' of
                 Inl e \<Rightarrow> Inl e
               | Inr (a, u, jm, d) \<Rightarrow> Inr (s[u_old := a], u, jm, d))"
    if "u_old < length s" "test_data \<noteq> u_old" "cntr_trained \<noteq> u_old" for u_old
    using that(2,3,1) by (rule cmeans_predict0_st_value)
  have outs: "d = fmax (cd (mat_T (s ! test_data)) (s ! cntr_trained) metric') eps \<and>
            jm = mat_sum (mat_mul (mat_pow (fmax a eps) m) (mat_sq d)) \<and>
            u = mat_div (mat_pow d (- 2 / (m - 1)))
                  (dot (ones c 1) (atleast_2d (col_sums (mat_pow d (- 2 / (m - 1))))))"
    if "cmeans_predict0 cd (s ! test_data) (s ! cntr_trained) v_old c m metric' = Inr (a, u, jm, d)"
    for a u jm d
    using cmeans_predict0_outputs [OF that] by (intro conjI)
  have train: "cntr = mat_div (dot (mat_pow (fmax a eps) m) (mat_T (s ! test_data)))
                     (mat_T (dot (ones (ncols (mat_T (s ! test_data))) 1)
                        (atleast_2d (row_sums (mat_pow (fmax a eps) m))))) \<and>
            cmeans_predict0 cd (s ! test_data) cntr v_old c m metric' = Inr (a, u, jm, d)"
    if "cmeans0 cd (s ! test_data) v_old c m metric' = Inr (a, cntr, u, jm, d)" for a cntr u jm d
    using cmeans0_Inr(3) [OF that] cmeans0_then_predict0 [OF that] by (intro conjI)
  from run step outs train show ?thesis by blast
qed

theorem prediction_keeps_centers_witness:
  "(0::nat) < length sample_store \<and> (1::nat) < length sample_store \<and>
   (\<exists>s' q. cmeans_predict_st sample_distance sample_rand sample_store 0 1 2 0 3 (Some ''euclidean'') (Some 2) None
             = Inr (s', q) \<and>
           cmeans_predict sample_distance sample_rand [[0, 1, 4]] [[0], [4]] 2 0 3
             (Some ''euclidean'') (Some [[1, 2, 3], [3, 2, 1]]) None = Inr q \<and>
           take 3 s' = sample_store \<and> s' ! 1 = [[0], [4]]) \<and>
   (\<exists>a u jm d. cmeans_predict0_st sample_distance sample_store 0 1 2 2 2 ''cityblock''
             = Inr (sample_store[2 := a], u, jm, d) \<and>
           d = fmax (sample_distance (mat_T [[0, 1, 4]]) [[0], [4]] ''cityblock'') eps) \<and>
   (\<exists>a cntr u jm d. cmeans0 sample_distance [[0, 1, 4]] [[1, 2, 3], [3, 2, 1]] 2 2 ''cityblock''
             = Inr (a, cntr, u, jm, d) \<and>
           cmeans_predict0 sample_distance [[0, 1, 4]] cntr [[1, 2, 3], [3, 2, 1]] 2 2 ''cityblock''
             = Inr (a, u, jm, d))"
proof -
  have l0: "(0::nat) < length sample_store" and l1: "(1::nat) < length sample_store"
    by (simp_all add: sample_store_def)
  have n0: "sample_store ! 0 = [[0, 1, 4]]" and n1: "sample_store ! 1 = [[0], [4]]"
    and n2: "sample_store ! 2 = [[1, 2, 3], [3, 2, 1]]" and len: "length sample_store = 3"
    by (simp_all add: sample_store_def)
  note inst = prediction_keeps_centers [OF l0 l1, where cd = sample_distance and rand = sample_rand
      and m = 2 and error = 0 and maxiter = 3 and metric = "Some ''euclidean''" and init = "Some 2" and seed = None
      and c = 2 and metric' = "''cityblock''" and v_old = "[[1, 2, 3], [3, 2, 1]]",
      unfolded n0 n1 len]
  from predict_loop_result [where maxiter = 3 and m = 2 and cd = sample_distance
      and rand = sample_rand and test_data = "[[0, 1, 4]]" and cntr_trained = "[[0], [4]]"
      and error = 0 and metric = "''euclidean''" and init = "Some [[1, 2, 3], [3, 2, 1]]"
      and seed = None]
  obtain q where q: "cmeans_predict sample_distance sample_rand [[0, 1, 4]] [[0], [4]] 2 0 3
             (Some ''euclidean'') (Some [[1, 2, 3], [3, 2, 1]]) None = Inr q"
    by auto
  have p1: "\<exists>s' q. cmeans_predict_st sample_distance sample_rand sample_store 0 1 2 0 3 (Some ''euclidean'') (Some 2) None
             = Inr (s', q) \<and>
           cmeans_predict sample_distance sample_rand [[0, 1, 4]] [[0], [4]] 2 0 3
             (Some ''euclidean'') (Some [[1, 2, 3], [3, 2, 1]]) None = Inr q \<and>
           take 3 s' = sample_store \<and> s' ! 1 = [[0], [4]]"
  proof (cases "cmeans_predict_st sample_distance sample_rand sample_store 0 1 2 0 3 (Some ''euclidean'') (Some 2) None")
    case (Inl e)
    with inst q show ?thesis by (simp add: n2)
  next
    case (Inr r)
    obtain s' q' where "r = (s', q')" by (cases r)
    with inst Inr show ?thesis by (simp add: n2)
  qed
  obtain a u jm d where
    v: "cmeans_predict0 sample_distance [[0, 1, 4]] [[0], [4]] [[1, 2, 3], [3, 2, 1]] 2 2 ''cityblock''
          = Inr (a, u, jm, d)"
    by (auto simp: cmeans_predict0_def Let_def)
  from inst have "cmeans_predict0_st sample_distance sample_store 0 1 2 2 2 ''cityblock'' =
              (case cmeans_predict0 sample_distance [[0, 1, 4]] [[0], [4]] (sample_store ! 2) 2 2
                      ''cityblock'' of
                 Inl e \<Rightarrow> Inl e
               | Inr (a, u, jm, d) \<Rightarrow> Inr (sample_store[2 := a], u, jm, d))"
    by simp
  with v have st: "cmeans_predict0_st sample_distance sample_store 0 1 2 2 2 ''cityblock''
             = Inr (sample_store[2 := a], u, jm, d)"
    by (simp add: n2)
  from inst v have "d = fmax (sample_distance (mat_T [[0, 1, 4]]) [[0], [4]] ''cityblock'') eps"
    by blast
  with st have p2: "\<exists>a u jm d. cmeans_predict0_st sample_distance sample_store 0 1 2 2 2 ''cityblock''
             = Inr (sample_store[2 := a], u, jm, d) \<and>
           d = fmax (sample_distance (mat_T [[0, 1, 4]]) [[0], [4]] ''cityblock'') eps"
    by blast
  obtain a' cntr u' jm' d' where
    t: "cmeans0 sample_distance [[0, 1, 4]] [[1, 2, 3], [3, 2, 1]] 2 2 ''cityblock''
             = Inr (a', cntr, u', jm', d')"
    by (auto simp: cmeans0_def Let_def)
  with inst have "cmeans_predict0 sample_distance [[0, 1, 4]] cntr [[1, 2, 3], [3, 2, 1]] 2 2
      ''cityblock'' = Inr (a', u', jm', d')"
    by blast
  with t have p3: "\<exists>a cntr u jm d. cmeans0 sample_distance [[0, 1, 4]] [[1, 2, 3], [3, 2, 1]] 2 2 ''cityblock''
             = Inr (a, cntr, u, jm, d) \<and>
           cmeans_predict0 sample_distance [[0, 1, 4]] cntr [[1, 2, 3], [3, 2, 1]] 2 2 ''cityblock''
             = Inr (a, u, jm, d)"
    by blast
  from l0 l1 p1 p2 p3 show ?thesis by (intro conjI)
qed

section \<open>Properties of assert_output_dir_exist\<close>












lemma map_of_snoc_absent: "map_of es c = None \<Longrightarrow> map_of (es @ [(c, x)]) c = Some x"
  by (simp add: map_add_def)












end
